theory Spec2Isabelle
  imports Complex_Main
begin

section \<open>Python values used by the caption pipeline\<close>

text \<open>
  The repository holds two implementations of the caption pipeline: \<^verbatim>\<open>src/helpers.py\<close>
  and a second copy of the same functions inside \<^verbatim>\<open>src/app.py\<close>. Definitions translated
  from \<^verbatim>\<open>helpers.py\<close> keep the source's names; definitions translated from
  \<^verbatim>\<open>app.py\<close> carry the prefix \<open>app_\<close>.

  Python \<^verbatim>\<open>str\<close> values are modelled as \<^typ>\<open>string\<close>, a character standing for a code
  point below 256. Python \<^verbatim>\<open>float\<close> values are modelled as exact \<^typ>\<open>real\<close> numbers:
  the binary rounding of float arithmetic is not part of the model. A style configuration
  is a dictionary from strings to strings.
\<close>

type_synonym settings = "string \<rightharpoonup> string"

definition dict_get :: "('k \<rightharpoonup> 'v) \<Rightarrow> 'k \<Rightarrow> 'v \<Rightarrow> 'v" where
  \<comment> \<open>\<^verbatim>\<open>d.get(k, default)\<close>\<close>
  "dict_get d k dflt = (case d k of None \<Rightarrow> dflt | Some v \<Rightarrow> v)"

fun starts_with :: "string \<Rightarrow> string \<Rightarrow> bool" where
  \<comment> \<open>\<^verbatim>\<open>s.startswith(p)\<close>, with the arguments as \<open>starts_with p s\<close>\<close>
  "starts_with [] s = True"
| "starts_with (p # ps) [] = False"
| "starts_with (p # ps) (c # cs) = (p = c \<and> starts_with ps cs)"

fun str_contains :: "string \<Rightarrow> string \<Rightarrow> bool" where
  \<comment> \<open>\<^verbatim>\<open>sub in s\<close> on strings, with the arguments as \<open>str_contains sub s\<close>\<close>
  "str_contains sub [] = (sub = [])"
| "str_contains sub (c # cs) = (starts_with sub (c # cs) \<or> str_contains sub cs)"

definition digit_char :: "nat \<Rightarrow> char" where
  "digit_char n = ''0123456789'' ! n"

fun str_nat :: "nat \<Rightarrow> string" where
  "str_nat n = (if n < 10 then [digit_char n] else str_nat (n div 10) @ [digit_char (n mod 10)])"

declare str_nat.simps [simp del]

definition str_int :: "int \<Rightarrow> string" where
  \<comment> \<open>\<^verbatim>\<open>str(n)\<close>, which is also \<^verbatim>\<open>f"{n}"\<close>\<close>
  "str_int n = (if n < 0 then CHR ''-'' # str_nat (nat (- n)) else str_nat (nat n))"

definition lower_char :: "char \<Rightarrow> char" where
  "lower_char c =
     (case map_of (zip ''ABCDEFGHIJKLMNOPQRSTUVWXYZ'' ''abcdefghijklmnopqrstuvwxyz'') c of
        None \<Rightarrow> c | Some l \<Rightarrow> l)"

definition py_lower :: "string \<Rightarrow> string" where
  \<comment> \<open>\<^verbatim>\<open>s.lower()\<close>. Only the ASCII letters are mapped: no other code point below 256
      lower-cases to an ASCII character, and the one use of \<^verbatim>\<open>lower\<close> looks the result up
      in a table whose keys are ASCII.\<close>
  "py_lower s = map lower_char s"

section \<open>Style tables\<close>

subsection \<open>helpers.py\<close>

definition COLOR_MAP :: "(string \<times> string) list" where
  "COLOR_MAP =
     [(''white'', ''00FFFFFF''), (''yellow'', ''0000FFFF''), (''cyan'', ''00FFFF00''),
      (''lime'', ''0000FF00''), (''orange'', ''0000A5FF''), (''red'', ''000000FF''),
      (''pink'', ''00CBC0FF''), (''purple'', ''00F020A0''), (''light-blue'', ''00E6D8AD''),
      (''light-green'', ''0090EE90'')]"

definition BG_COLOR_MAP :: "(string \<times> string) list" where
  "BG_COLOR_MAP =
     [(''none'', ''FF000000''), (''black'', ''00000000''), (''dark-gray'', ''00333333''),
      (''semi-transparent'', ''80000000''), (''dark-blue'', ''00800000''),
      (''dark-red'', ''00000080''), (''dark-green'', ''00008000''),
      (''dark-purple'', ''00800080''), (''navy'', ''00800000''), (''charcoal'', ''00363636'')]"

definition FONT_MAP :: "(string \<times> string) list" where
  "FONT_MAP =
     [(''arial'', ''Arial''), (''helvetica'', ''Helvetica''),
      (''times-new-roman'', ''Times New Roman''), (''courier-new'', ''Courier New''),
      (''verdana'', ''Verdana''), (''georgia'', ''Georgia''), (''impact'', ''Impact''),
      (''comic-sans'', ''Comic Sans MS''), (''trebuchet'', ''Trebuchet MS''),
      (''arial-black'', ''Arial Black''), (''palatino'', ''Palatino Linotype'')]"

type_synonym placement = "int \<times> string \<times> string \<times> string"
  \<comment> \<open>alignment code, left margin, right margin, vertical margin\<close>

definition position_map :: "(string \<times> placement) list" where
  "position_map =
     [(''top-left'', (7, ''40'', ''10'', ''20'')), (''top'', (8, ''10'', ''10'', ''20'')),
      (''top-right'', (9, ''10'', ''40'', ''20'')), (''middle-left'', (4, ''40'', ''10'', ''0'')),
      (''middle'', (5, ''10'', ''10'', ''0'')), (''middle-right'', (6, ''10'', ''40'', ''0'')),
      (''bottom-left'', (1, ''40'', ''10'', ''20'')), (''bottom'', (2, ''10'', ''10'', ''20'')),
      (''bottom-right'', (3, ''10'', ''40'', ''20''))]"

definition get_ass_alignment_and_margins :: "string \<Rightarrow> string \<Rightarrow> placement" where
  "get_ass_alignment_and_margins position text_alignment =
     (let base_position = dict_get (map_of position_map) position (2, ''10'', ''10'', ''20'')
      in if position \<in> set [''top'', ''middle'', ''bottom''] then
           (let alignment_base = fst base_position;
                base_v = snd (snd (snd base_position))
            in if text_alignment = ''left'' then (alignment_base - 1, ''40'', ''10'', base_v)
               else if text_alignment = ''right'' then (alignment_base + 1, ''10'', ''40'', base_v)
               else (alignment_base, ''10'', ''10'', base_v))
         else base_position)"

record style =
  font_name :: string
  font_size :: string
  primary_color :: string
  back_color :: string
  bold :: int
  italic :: int
  border_style :: string
  outline_val :: string
  shadow_val :: string
  alignment_code :: int
  margin_l :: string
  margin_r :: string
  margin_v :: string

definition default_caption_settings :: settings where
  \<comment> \<open>the dictionary \<^verbatim>\<open>convert_srt_to_ass\<close> substitutes for \<^verbatim>\<open>caption_settings=None\<close>\<close>
  "default_caption_settings =
     [''size'' \<mapsto> ''20'', ''color'' \<mapsto> ''white'', ''bgColor'' \<mapsto> ''none'', ''font'' \<mapsto> ''arial'',
      ''position'' \<mapsto> ''bottom'', ''alignment'' \<mapsto> ''center'']"

definition convert_srt_to_ass_style :: "settings option \<Rightarrow> style" where
  \<comment> \<open>lines 103 to 142 of \<^verbatim>\<open>convert_srt_to_ass\<close>: the values placed in the Style record\<close>
  "convert_srt_to_ass_style caption_settings_opt =
     (let caption_settings =
            (case caption_settings_opt of None \<Rightarrow> default_caption_settings | Some d \<Rightarrow> d);
          size = dict_get caption_settings ''size'' ''20'';
          color_name = dict_get caption_settings ''color'' ''white'';
          bg_color_name = dict_get caption_settings ''bgColor'' ''none'';
          font_family =
            dict_get (map_of FONT_MAP) (dict_get caption_settings ''font'' ''arial'') ''Arial'';
          font_style = dict_get caption_settings ''fontStyle'' ''normal'';
          position = dict_get caption_settings ''position'' ''bottom'';
          text_alignment = dict_get caption_settings ''alignment'' ''center'';
          primary = dict_get (map_of COLOR_MAP) color_name ''00FFFFFF'';
          back = dict_get (map_of BG_COLOR_MAP) bg_color_name ''FF000000'';
          b = (if str_contains ''bold'' font_style then - 1 else 0);
          i = (if str_contains ''italic'' font_style then - 1 else 0);
          has_background = (bg_color_name \<noteq> ''none'');
          pl = get_ass_alignment_and_margins position text_alignment
      in \<lparr> font_name = font_family, font_size = size, primary_color = primary,
           back_color = back, bold = b, italic = i,
           border_style = (if has_background then ''4'' else ''1''),
           outline_val = ''2'',
           shadow_val = (if has_background then ''0'' else ''1''),
           alignment_code = fst pl, margin_l = fst (snd pl), margin_r = fst (snd (snd pl)),
           margin_v = snd (snd (snd pl)) \<rparr>)"

definition style_line :: "style \<Rightarrow> string" where
  \<comment> \<open>the \<^verbatim>\<open>Style:\<close> line of the markup header, the same f-string in both files\<close>
  "style_line s =
     ''Style: Default,'' @ font_name s @ '','' @ font_size s @ '',&H'' @ primary_color s
     @ '',&H'' @ primary_color s @ '',&H00000000,&H'' @ back_color s @ '','' @ str_int (bold s)
     @ '','' @ str_int (italic s) @ '',0,0,100,100,0,0,'' @ border_style s @ '',''
     @ outline_val s @ '','' @ shadow_val s @ '','' @ str_int (alignment_code s) @ '',''
     @ margin_l s @ '','' @ margin_r s @ '','' @ margin_v s @ '',1''"

subsection \<open>app.py\<close>

definition app_color_map :: "(string \<times> string) list" where
  "app_color_map =
     [(''white'', ''00FFFFFF''), (''yellow'', ''0000FFFF''), (''cyan'', ''00FFFF00''),
      (''lime'', ''0000FF00''), (''orange'', ''0000A5FF''), (''red'', ''000000FF''),
      (''pink'', ''00FFC0CB''), (''purple'', ''00A020F0''), (''light-blue'', ''00E6D8AD''),
      (''light-green'', ''0090EE90'')]"

definition app_position_map :: "(string \<times> placement) list" where
  "app_position_map =
     [(''bottom'', (2, ''10'', ''10'', ''20'')), (''top'', (8, ''10'', ''10'', ''20'')),
      (''bottom-left'', (1, ''40'', ''10'', ''20'')), (''bottom-right'', (3, ''10'', ''40'', ''20'')),
      (''top-left'', (7, ''40'', ''10'', ''20'')), (''top-right'', (9, ''10'', ''40'', ''20'')),
      (''middle'', (5, ''10'', ''10'', ''0''))]"

definition outline_table :: "(string \<times> string) list" where
  \<comment> \<open>the dictionary literal of \<^verbatim>\<open>outline_val\<close> in \<^verbatim>\<open>app.py\<close>\<close>
  "outline_table =
     [(''none'', ''0''), (''thin'', ''1''), (''medium'', ''2''), (''thick'', ''3''),
      (''extra-thick'', ''4'')]"

definition shadow_table :: "(string \<times> string) list" where
  \<comment> \<open>the dictionary literal of \<^verbatim>\<open>shadow_val\<close> in \<^verbatim>\<open>app.py\<close>\<close>
  "shadow_table =
     [(''none'', ''0''), (''subtle'', ''1''), (''medium'', ''2''), (''large'', ''3''),
      (''extra-large'', ''4'')]"

definition app_overlay_subtitles_style :: "settings option \<Rightarrow> style" where
  \<comment> \<open>lines 127 to 231 of \<^verbatim>\<open>overlay_subtitles\<close> in \<^verbatim>\<open>app.py\<close>; its background and font
      tables are equal to \<^const>\<open>BG_COLOR_MAP\<close> and \<^const>\<open>FONT_MAP\<close>\<close>
  "app_overlay_subtitles_style caption_settings_opt =
     (let caption_settings = (case caption_settings_opt of None \<Rightarrow> Map.empty | Some d \<Rightarrow> d);
          size = dict_get caption_settings ''size'' ''20'';
          font_color = dict_get caption_settings ''color'' ''white'';
          font_family = dict_get caption_settings ''font'' ''Arial'';
          bg_color = dict_get caption_settings ''bgColor'' ''none'';
          position = dict_get caption_settings ''position'' ''bottom'';
          alignment = dict_get caption_settings ''alignment'' ''center'';
          outline = dict_get caption_settings ''outlineThickness'' ''medium'';
          shadow = dict_get caption_settings ''shadowDistance'' ''medium'';
          font_style = dict_get caption_settings ''fontStyle'' ''normal'';
          pl = dict_get (map_of app_position_map) position (2, ''10'', ''10'', ''20'');
          row = (position \<in> set [''top'', ''middle'', ''bottom'']);
          code = (if row \<and> alignment = ''left'' then fst pl - 1
                  else if row \<and> alignment = ''right'' then fst pl + 1 else fst pl);
          ml = (if row \<and> alignment = ''left'' then ''40''
                else if row \<and> alignment = ''right'' then ''10'' else fst (snd pl));
          mr = (if row \<and> alignment = ''left'' then ''10''
                else if row \<and> alignment = ''right'' then ''40'' else fst (snd (snd pl)));
          primary = dict_get (map_of app_color_map) font_color ''00FFFFFF'';
          back = dict_get (map_of BG_COLOR_MAP) bg_color ''FF000000'';
          fname = dict_get (map_of FONT_MAP) (py_lower font_family) font_family;
          b = (if str_contains ''bold'' font_style then - 1 else 0);
          i = (if str_contains ''italic'' font_style then - 1 else 0);
          has_background = (bg_color \<noteq> ''none'')
      in \<lparr> font_name = fname, font_size = size, primary_color = primary, back_color = back,
           bold = b, italic = i,
           border_style = (if has_background then ''4'' else ''1''),
           outline_val =
             (if has_background then ''2'' else dict_get (map_of outline_table) outline ''2''),
           shadow_val =
             (if has_background then ''0'' else dict_get (map_of shadow_table) shadow ''2''),
           alignment_code = code, margin_l = ml, margin_r = mr,
           margin_v = snd (snd (snd pl)) \<rparr>)"

section \<open>Exceptions\<close>

text \<open>
  Every \<^verbatim>\<open>raise\<close> of the source is a value. An exception raised with an explicit message
  carries it; the exceptions raised by the Python runtime (\<^verbatim>\<open>int\<close>, \<^verbatim>\<open>float\<close>, list
  indexing, the operating system) carry none, their text being the runtime's.
  \<open>ExceptionFrom p e\<close> is \<^verbatim>\<open>Exception(p + str(e))\<close>. \<open>NotModelled\<close> is not a Python
  exception: it marks the inputs on which the model does not say what Python does.
\<close>

datatype exc =
    FileNotFoundError string
  | ValueError
  | IndexError
  | OSError
  | TimeoutExpired
  | CalledProcessError int string
  | Exception string
  | ExceptionFrom string exc
  | NotModelled

definition and_then :: "exc + 'a \<Rightarrow> ('a \<Rightarrow> exc + 'b) \<Rightarrow> exc + 'b" where
  "and_then m f = (case m of Inl e \<Rightarrow> Inl e | Inr v \<Rightarrow> f v)"

definition list_get :: "'a list \<Rightarrow> nat \<Rightarrow> exc + 'a" where
  \<comment> \<open>\<^verbatim>\<open>xs[i]\<close> for a literal index \<open>i \<ge> 0\<close>\<close>
  "list_get xs i = (if i < length xs then Inr (xs ! i) else Inl IndexError)"

section \<open>String operations\<close>

definition whitespace :: "char list" where
  \<comment> \<open>the code points below 256 for which \<^verbatim>\<open>str.isspace\<close> holds\<close>
  "whitespace =
     [CHR 0x09, CHR 0x0A, CHR 0x0B, CHR 0x0C, CHR 0x0D, CHR 0x1C, CHR 0x1D, CHR 0x1E, CHR 0x1F,
      CHR 0x20, CHR 0x85, CHR 0xA0]"

definition is_space :: "char \<Rightarrow> bool" where
  "is_space c = (c \<in> set whitespace)"

definition strip :: "string \<Rightarrow> string" where
  \<comment> \<open>\<^verbatim>\<open>s.strip()\<close>\<close>
  "strip s = rev (dropWhile is_space (rev (dropWhile is_space s)))"

fun split_ws :: "string \<Rightarrow> string \<Rightarrow> string list" where
  \<comment> \<open>the first argument is the word being read, reversed\<close>
  "split_ws cur [] = (if cur = [] then [] else [rev cur])"
| "split_ws cur (c # cs) =
     (if is_space c then (if cur = [] then split_ws [] cs else rev cur # split_ws [] cs)
      else split_ws (c # cur) cs)"

definition py_split_ws :: "string \<Rightarrow> string list" where
  \<comment> \<open>\<^verbatim>\<open>s.split()\<close>\<close>
  "py_split_ws s = split_ws [] s"

fun join :: "string \<Rightarrow> string list \<Rightarrow> string" where
  \<comment> \<open>\<^verbatim>\<open>sep.join(xs)\<close>\<close>
  "join sep [] = []"
| "join sep [x] = x"
| "join sep (x # y # ys) = x @ sep @ join sep (y # ys)"

function split_at :: "string \<Rightarrow> string \<Rightarrow> string \<Rightarrow> string list" where
  \<comment> \<open>the second argument is the piece being read, reversed\<close>
  "split_at sep cur [] = [rev cur]"
| "split_at sep cur (c # cs) =
     (if sep \<noteq> [] \<and> starts_with sep (c # cs)
      then rev cur # split_at sep [] (drop (length sep) (c # cs))
      else split_at sep (c # cur) cs)"
  by pat_completeness auto
termination
  by (relation "measure (\<lambda>(sep, cur, s). length s)") auto

definition py_split :: "string \<Rightarrow> string \<Rightarrow> string list" where
  \<comment> \<open>\<^verbatim>\<open>s.split(sep)\<close> for a non-empty separator, with the arguments as \<open>py_split sep s\<close>\<close>
  "py_split sep s = split_at sep [] s"

function py_replace :: "string \<Rightarrow> string \<Rightarrow> string \<Rightarrow> string" where
  \<comment> \<open>\<^verbatim>\<open>s.replace(old, new)\<close> for a non-empty \<^verbatim>\<open>old\<close>, with the arguments as
      \<open>py_replace old new s\<close>\<close>
  "py_replace old new [] = []"
| "py_replace old new (c # cs) =
     (if old \<noteq> [] \<and> starts_with old (c # cs)
      then new @ py_replace old new (drop (length old) (c # cs))
      else c # py_replace old new cs)"
  by pat_completeness auto
termination
  by (relation "measure (\<lambda>(old, new, s). length s)") auto

fun readlines_from :: "string \<Rightarrow> string \<Rightarrow> string list" where
  \<comment> \<open>the first argument is the line being read, reversed\<close>
  "readlines_from cur [] = (if cur = [] then [] else [rev cur])"
| "readlines_from cur [c] =
     (if c = CHR 0x0A \<or> c = CHR 0x0D then [rev (CHR 0x0A # cur)] else [rev (c # cur)])"
| "readlines_from cur (c # d # cs) =
     (if c = CHR 0x0A then rev (CHR 0x0A # cur) # readlines_from [] (d # cs)
      else if c = CHR 0x0D then
        (if d = CHR 0x0A then rev (CHR 0x0A # cur) # readlines_from [] cs
         else rev (CHR 0x0A # cur) # readlines_from [] (d # cs))
      else readlines_from (c # cur) (d # cs))"

definition readlines :: "string \<Rightarrow> string list" where
  \<comment> \<open>\<^verbatim>\<open>f.readlines()\<close> of a file opened for reading as text: the lines keep their
      terminator, and \<^verbatim>\<open>\r\<close> and \<^verbatim>\<open>\r\n\<close> are read as \<^verbatim>\<open>\n\<close>\<close>
  "readlines content = readlines_from [] content"

section \<open>Numbers: parsing, rounding, formatting\<close>

definition is_digit :: "char \<Rightarrow> bool" where
  "is_digit c = (c \<in> set ''0123456789'')"

definition digit_val :: "char \<Rightarrow> nat" where
  "digit_val c =
     (case map_of (zip ''0123456789'' [0, 1, 2, 3, 4, 5, 6, 7, 8, 9]) c of
        None \<Rightarrow> 0 | Some v \<Rightarrow> v)"

fun digitpart_ok :: "string \<Rightarrow> bool" where
  \<comment> \<open>digits, with single underscores allowed between two digits\<close>
  "digitpart_ok [] = False"
| "digitpart_ok [c] = is_digit c"
| "digitpart_ok (c # d # cs) =
     (is_digit c \<and> (if d = CHR ''_'' then digitpart_ok cs else digitpart_ok (d # cs)))"

definition digits_value :: "string \<Rightarrow> nat" where
  "digits_value s = foldl (\<lambda>a c. 10 * a + digit_val c) 0 (filter is_digit s)"

definition split_sign :: "string \<Rightarrow> bool \<times> string" where
  \<comment> \<open>an optional sign: whether it is a minus, and the rest\<close>
  "split_sign s =
     (case s of
        [] \<Rightarrow> (False, [])
      | c # cs \<Rightarrow> if c = CHR ''-'' then (True, cs) else if c = CHR ''+'' then (False, cs)
                 else (False, s))"

definition py_int_of_str :: "string \<Rightarrow> exc + int" where
  \<comment> \<open>\<^verbatim>\<open>int(s)\<close> on a string\<close>
  "py_int_of_str s =
     (let (neg, body) = split_sign (strip s)
      in if digitpart_ok body
         then Inr (if neg then - int (digits_value body) else int (digits_value body))
         else Inl ValueError)"

definition py_float_of_str :: "string \<Rightarrow> exc + real" where
  \<comment> \<open>\<^verbatim>\<open>float(s)\<close> on a string. Decimal literals without exponent are read exactly. An
      exponent, \<^verbatim>\<open>inf\<close>, \<^verbatim>\<open>nan\<close> and a negative zero are outside the model.\<close>
  "py_float_of_str s =
     (let (neg, body) = split_sign (strip s)
      in if CHR ''e'' \<in> set body \<or> CHR ''E'' \<in> set body
            \<or> py_lower body \<in> set [''inf'', ''infinity'', ''nan'']
         then Inl NotModelled
         else
           (let ip = takeWhile (\<lambda>c. c \<noteq> CHR ''.'') body;
                rest = dropWhile (\<lambda>c. c \<noteq> CHR ''.'') body;
                fp = drop 1 rest;
                ok = (if rest = [] then digitpart_ok ip
                      else (ip = [] \<or> digitpart_ok ip) \<and> (fp = [] \<or> digitpart_ok fp)
                           \<and> \<not> (ip = [] \<and> fp = []));
                v = real (digits_value ip)
                    + real (digits_value fp) / 10 ^ length (filter is_digit fp)
            in if \<not> ok then Inl ValueError
               else if neg \<and> v = 0 then Inl NotModelled
               else Inr (if neg then - v else v)))"

definition floordiv :: "real \<Rightarrow> real \<Rightarrow> real" where
  \<comment> \<open>\<^verbatim>\<open>x // y\<close> on floats, for \<open>y > 0\<close>\<close>
  "floordiv x y = of_int \<lfloor>x / y\<rfloor>"

definition fmod :: "real \<Rightarrow> real \<Rightarrow> real" where
  \<comment> \<open>\<^verbatim>\<open>x % y\<close> on floats, for \<open>y > 0\<close>\<close>
  "fmod x y = x - y * of_int \<lfloor>x / y\<rfloor>"

definition py_int :: "real \<Rightarrow> int" where
  \<comment> \<open>\<^verbatim>\<open>int(x)\<close> on a float: truncation towards zero\<close>
  "py_int x = (if 0 \<le> x then \<lfloor>x\<rfloor> else \<lceil>x\<rceil>)"

definition py_round :: "real \<Rightarrow> int" where
  \<comment> \<open>\<^verbatim>\<open>round(x)\<close>: the nearest integer, a tie going to the even one\<close>
  "py_round x =
     (let f = \<lfloor>x\<rfloor>; d = x - of_int f
      in if d < 1 / 2 then f else if 1 / 2 < d then f + 1 else if even f then f else f + 1)"

definition zfill :: "nat \<Rightarrow> string \<Rightarrow> string" where
  "zfill w s = replicate (w - length s) CHR ''0'' @ s"

definition fmt_d :: "nat \<Rightarrow> int \<Rightarrow> string" where
  \<comment> \<open>\<^verbatim>\<open>f"{n:0wd}"\<close>: at least \<open>w\<close> characters, zeros after the sign\<close>
  "fmt_d w n =
     (if n < 0 then CHR ''-'' # zfill (w - 1) (str_nat (nat (- n))) else zfill w (str_nat (nat n)))"

definition fmt_05_2f :: "real \<Rightarrow> string" where
  \<comment> \<open>\<^verbatim>\<open>f"{x:05.2f}"\<close>: two decimals, at least five characters\<close>
  "fmt_05_2f x =
     (let c = nat (py_round (\<bar>x\<bar> * 100));
          body = str_nat (c div 100) @ ''.'' @ zfill 2 (str_nat (c mod 100))
      in if x < 0 then CHR ''-'' # zfill 4 body else zfill 5 body)"

section \<open>Timestamps\<close>

definition format_time :: "real \<Rightarrow> string" where
  \<comment> \<open>\<^verbatim>\<open>format_time\<close> of \<^verbatim>\<open>helpers.py\<close>\<close>
  "format_time seconds0 =
     (let seconds = (if seconds0 < 0 then 0 else seconds0);
          hours = py_int (floordiv seconds 3600);
          minutes = py_int (floordiv (fmod seconds 3600) 60);
          secs = py_int (fmod seconds 60);
          millis = py_round ((seconds - of_int (py_int seconds)) * 1000)
      in fmt_d 2 hours @ '':'' @ fmt_d 2 minutes @ '':'' @ fmt_d 2 secs @ '','' @ fmt_d 3 millis)"

definition app_format_time :: "real \<Rightarrow> string" where
  \<comment> \<open>\<^verbatim>\<open>format_time\<close> of \<^verbatim>\<open>app.py\<close>: no clamp, and the milliseconds are truncated\<close>
  "app_format_time seconds =
     (let hours = py_int (floordiv seconds 3600);
          minutes = py_int (floordiv (fmod seconds 3600) 60);
          secs = py_int (fmod seconds 60);
          millis = py_int ((seconds - of_int (py_int seconds)) * 1000)
      in fmt_d 2 hours @ '':'' @ fmt_d 2 minutes @ '':'' @ fmt_d 2 secs @ '','' @ fmt_d 3 millis)"

definition ass_time :: "int \<Rightarrow> int \<Rightarrow> real \<Rightarrow> string" where
  \<comment> \<open>\<^verbatim>\<open>f"{hours}:{minutes:02d}:{seconds:05.2f}"\<close>\<close>
  "ass_time hours minutes seconds =
     str_int hours @ '':'' @ fmt_d 2 minutes @ '':'' @ fmt_05_2f seconds"

definition convert_time_srt_to_ass :: "string \<Rightarrow> exc + string" where
  "convert_time_srt_to_ass time_str =
     (let parts = py_split '':'' (py_replace '','' ''.'' time_str)
      in and_then (and_then (list_get parts 0) py_int_of_str) (\<lambda>hours.
         and_then (and_then (list_get parts 1) py_int_of_str) (\<lambda>minutes.
         and_then (and_then (list_get parts 2) py_float_of_str) (\<lambda>seconds.
         Inr (ass_time hours minutes seconds)))))"

definition toMarkupTime :: "real \<Rightarrow> string" where
  \<comment> \<open>The specification's \<^verbatim>\<open>toMarkupTime\<close>, written from the specification's words for
      comparison with the code: hours unpadded, minutes on two digits, seconds as a
      two-decimal field. The source has no function that formats seconds directly.\<close>
  "toMarkupTime seconds =
     ass_time (py_int (floordiv seconds 3600)) (py_int (floordiv (fmod seconds 3600) 60))
       (fmod seconds 60)"

section \<open>Caption file generation\<close>

text \<open>
  A transcript segment is the dictionary \<^verbatim>\<open>{'text': ..., 'start': ..., 'end': ...}\<close> of the
  transcription engine. \<^verbatim>\<open>generate_srt\<close> is modelled by the text it writes to
  \<^verbatim>\<open>srt_path\<close>; a failure of \<^verbatim>\<open>open\<close> or \<^verbatim>\<open>write\<close> is not part of the model. A cue is
  one block written to the file: the start and end handed to \<^verbatim>\<open>format_time\<close>, and the text.
\<close>

record segment =
  seg_text :: string
  seg_start :: real
  seg_end :: real

record cue =
  cue_start :: real
  cue_end :: real
  cue_text :: string

function chunks_of :: "nat \<Rightarrow> 'a list \<Rightarrow> 'a list list" where
  \<comment> \<open>\<^verbatim>\<open>[words[i:i + n] for i in range(0, len(words), n)]\<close>, for \<open>n > 0\<close>\<close>
  "chunks_of n xs = (if n = 0 \<or> xs = [] then [] else take n xs # chunks_of n (drop n xs))"
  by pat_completeness auto
termination
  by (relation "measure (\<lambda>(n, xs). length xs)") auto

declare chunks_of.simps [simp del]

definition max_words :: nat where
  "max_words = 7"

definition segment_cues :: "segment \<Rightarrow> cue list" where
  \<comment> \<open>the body of the loop of \<^verbatim>\<open>generate_srt\<close> in \<^verbatim>\<open>helpers.py\<close>: the cues written for one
      segment, in order\<close>
  "segment_cues seg =
     (let text = strip (seg_text seg)
      in if text = [] then []
         else
           (let words = py_split_ws text
            in if length words \<le> max_words
               then [\<lparr> cue_start = seg_start seg, cue_end = seg_end seg, cue_text = text \<rparr>]
               else
                 (let total_dur = seg_end seg - seg_start seg;
                      chunks = chunks_of max_words words;
                      chunk_dur = total_dur / real (length chunks)
                  in map (\<lambda>(i, chunk).
                            \<lparr> cue_start = seg_start seg + real i * chunk_dur,
                              cue_end = min (seg_start seg + (real i + 1) * chunk_dur) (seg_end seg),
                              cue_text = join '' '' chunk \<rparr>)
                       (enumerate 0 chunks))))"

definition srt_block :: "(real \<Rightarrow> string) \<Rightarrow> nat \<Rightarrow> cue \<Rightarrow> string" where
  \<comment> \<open>the three \<^verbatim>\<open>f.write\<close> calls of one cue; the first argument is the file's
      \<^verbatim>\<open>format_time\<close>\<close>
  "srt_block fmt idx c =
     str_nat idx @ [CHR 0x0A]
     @ fmt (cue_start c) @ '' --> '' @ fmt (cue_end c) @ [CHR 0x0A]
     @ cue_text c @ [CHR 0x0A, CHR 0x0A]"

fun write_cues :: "(real \<Rightarrow> string) \<Rightarrow> nat \<Rightarrow> cue list \<Rightarrow> string \<times> nat" where
  \<comment> \<open>writes the cues from index \<open>idx\<close> on; returns the text and the next index\<close>
  "write_cues fmt idx [] = ([], idx)"
| "write_cues fmt idx (c # cs) =
     (let (rest, idx') = write_cues fmt (idx + 1) cs in (srt_block fmt idx c @ rest, idx'))"

fun generate_srt_from :: "nat \<Rightarrow> segment list \<Rightarrow> string" where
  \<comment> \<open>the loop over the segments, \<open>idx\<close> being the loop's counter\<close>
  "generate_srt_from idx [] = []"
| "generate_srt_from idx (seg # segments) =
     (let (out, idx') = write_cues format_time idx (segment_cues seg)
      in out @ generate_srt_from idx' segments)"

definition generate_srt :: "segment list \<Rightarrow> string" where
  "generate_srt segments = generate_srt_from 1 segments"

definition app_segment_cues :: "segment \<Rightarrow> cue list" where
  \<comment> \<open>the body of the loop of \<^verbatim>\<open>generate_srt\<close> in \<^verbatim>\<open>app.py\<close>: one cue for a segment
      with text, never split\<close>
  "app_segment_cues seg =
     (let text = strip (seg_text seg)
      in if text = [] then []
         else [\<lparr> cue_start = seg_start seg, cue_end = seg_end seg, cue_text = text \<rparr>])"

fun app_generate_srt_from :: "nat \<Rightarrow> segment list \<Rightarrow> string" where
  "app_generate_srt_from idx [] = []"
| "app_generate_srt_from idx (seg # segments) =
     (let (out, idx') = write_cues app_format_time idx (app_segment_cues seg)
      in out @ app_generate_srt_from idx' segments)"

definition app_generate_srt :: "segment list \<Rightarrow> string" where
  "app_generate_srt segments = app_generate_srt_from 1 segments"

section \<open>Facts about strings\<close>

lemma starts_with_iff: "starts_with p s \<longleftrightarrow> (\<exists>q. s = p @ q)"
  by (induction p s rule: starts_with.induct) auto

lemma str_contains_iff: "str_contains sub s \<longleftrightarrow> (\<exists>p q. s = p @ sub @ q)"
proof (induction s)
  case Nil
  show ?case by auto
next
  case (Cons c cs)
  show ?case
  proof
    assume "str_contains sub (c # cs)"
    then consider "starts_with sub (c # cs)" | "str_contains sub cs" by auto
    then show "\<exists>p q. c # cs = p @ sub @ q"
    proof cases
      case 1
      then obtain q where "c # cs = sub @ q" by (auto simp: starts_with_iff)
      then have "c # cs = [] @ sub @ q" by simp
      then show ?thesis by blast
    next
      case 2
      then obtain p q where "cs = p @ sub @ q" using Cons.IH by auto
      then have "c # cs = (c # p) @ sub @ q" by simp
      then show ?thesis by blast
    qed
  next
    assume "\<exists>p q. c # cs = p @ sub @ q"
    then obtain p q where e: "c # cs = p @ sub @ q" by auto
    show "str_contains sub (c # cs)"
    proof (cases p)
      case Nil
      then have "starts_with sub (c # cs)" using e by (auto simp: starts_with_iff)
      then show ?thesis by simp
    next
      case (Cons a p')
      then have "cs = p' @ sub @ q" using e by simp
      then have "str_contains sub cs" using Cons.IH by auto
      then show ?thesis by simp
    qed
  qed
qed

section \<open>Style resolution\<close>

lemma helpers_flags:
  "bold (convert_srt_to_ass_style (Some cfg)) =
     (if str_contains ''bold'' (dict_get cfg ''fontStyle'' ''normal'') then - 1 else 0)"
  "italic (convert_srt_to_ass_style (Some cfg)) =
     (if str_contains ''italic'' (dict_get cfg ''fontStyle'' ''normal'') then - 1 else 0)"
  by (simp_all add: convert_srt_to_ass_style_def Let_def)

lemma app_flags:
  "bold (app_overlay_subtitles_style (Some cfg)) =
     (if str_contains ''bold'' (dict_get cfg ''fontStyle'' ''normal'') then - 1 else 0)"
  "italic (app_overlay_subtitles_style (Some cfg)) =
     (if str_contains ''italic'' (dict_get cfg ''fontStyle'' ''normal'') then - 1 else 0)"
  by (simp_all add: app_overlay_subtitles_style_def Let_def)

text \<open>
  Claim C10. For every style configuration, in \<^verbatim>\<open>helpers.py\<close> and in \<^verbatim>\<open>app.py\<close> alike, the
  bold flag is \<open>-1\<close> exactly when \<^verbatim>\<open>bold\<close> occurs as a substring of the \<^verbatim>\<open>fontStyle\<close>
  value (\<^verbatim>\<open>normal\<close> when the key is missing) and \<open>0\<close> otherwise, and the italic flag
  likewise with the substring \<^verbatim>\<open>italic\<close>: any value containing the substring sets the
  flag, not only the exact token.
\<close>

theorem font_style_flags:
  "bold (convert_srt_to_ass_style (Some cfg)) =
     (if (\<exists>p q. dict_get cfg ''fontStyle'' ''normal'' = p @ ''bold'' @ q) then - 1 else 0)
   \<and> italic (convert_srt_to_ass_style (Some cfg)) =
     (if (\<exists>p q. dict_get cfg ''fontStyle'' ''normal'' = p @ ''italic'' @ q) then - 1 else 0)
   \<and> bold (app_overlay_subtitles_style (Some cfg)) =
     (if (\<exists>p q. dict_get cfg ''fontStyle'' ''normal'' = p @ ''bold'' @ q) then - 1 else 0)
   \<and> italic (app_overlay_subtitles_style (Some cfg)) =
     (if (\<exists>p q. dict_get cfg ''fontStyle'' ''normal'' = p @ ''italic'' @ q) then - 1 else 0)"
  unfolding helpers_flags app_flags str_contains_iff by simp

theorem font_style_flags_witness:
  "bold (convert_srt_to_ass_style (Some [''fontStyle'' \<mapsto> ''semibold''])) = - 1
   \<and> bold (app_overlay_subtitles_style (Some [''fontStyle'' \<mapsto> ''semibold''])) = - 1"
proof -
  have "''semibold'' = ''semi'' @ ''bold'' @ []" by simp
  then have "\<exists>p q. ''semibold'' = p @ ''bold'' @ q" by blast
  then show ?thesis
    using font_style_flags [of "[''fontStyle'' \<mapsto> ''semibold'']"]
    by (simp add: dict_get_def)
qed






lemma medium_entries:
  "map_of outline_table ''medium'' = Some ''2''" "map_of shadow_table ''medium'' = Some ''2''"
  by (simp_all add: outline_table_def shadow_table_def)

lemma str_int_small: "str_int 0 = ''0''" "str_int 2 = ''2''" "str_int (- 1) = ''-1''"
  by (simp_all add: str_int_def str_nat.simps digit_char_def)




text \<open>
  Claim C5, as amended. The empty style configuration resolves, in \<^verbatim>\<open>app.py\<close> and in
  \<^verbatim>\<open>helpers.py\<close>, to primary colour \<^verbatim>\<open>&H00FFFFFF\<close>, background \<^verbatim>\<open>&HFF000000\<close>, border
  style 1, alignment code 2 with margins 10/10/20, bold 0 and italic 0. In \<^verbatim>\<open>app.py\<close> the
  outline and the shadow are the \<^verbatim>\<open>medium\<close> entries of the two severity tables, 2 and 2.
  \<^verbatim>\<open>helpers.py\<close> has no severity tables: its outline is the constant 2 and its shadow the
  constant 1.
\<close>

theorem empty_config_default_style:
  "app_overlay_subtitles_style (Some Map.empty) =
     \<lparr> font_name = ''Arial'', font_size = ''20'', primary_color = ''00FFFFFF'',
       back_color = ''FF000000'', bold = 0, italic = 0, border_style = ''1'',
       outline_val = ''2'', shadow_val = ''2'', alignment_code = 2,
       margin_l = ''10'', margin_r = ''10'', margin_v = ''20'' \<rparr>
   \<and> map_of outline_table ''medium'' = Some ''2''
   \<and> map_of shadow_table ''medium'' = Some ''2''
   \<and> convert_srt_to_ass_style (Some Map.empty) =
     \<lparr> font_name = ''Arial'', font_size = ''20'', primary_color = ''00FFFFFF'',
       back_color = ''FF000000'', bold = 0, italic = 0, border_style = ''1'',
       outline_val = ''2'', shadow_val = ''1'', alignment_code = 2,
       margin_l = ''10'', margin_r = ''10'', margin_v = ''20'' \<rparr>
   \<and> app_overlay_subtitles_style None = app_overlay_subtitles_style (Some Map.empty)
   \<and> convert_srt_to_ass_style None = convert_srt_to_ass_style (Some Map.empty)
   \<and> style_line (app_overlay_subtitles_style (Some Map.empty)) =
       ''Style: Default,Arial,20,&H00FFFFFF,&H00FFFFFF,&H00000000,&HFF000000,0,0,0,0,100,100,0,0,1,2,2,2,10,10,20,1''
   \<and> style_line (convert_srt_to_ass_style (Some Map.empty)) =
       ''Style: Default,Arial,20,&H00FFFFFF,&H00FFFFFF,&H00000000,&HFF000000,0,0,0,0,100,100,0,0,1,2,1,2,10,10,20,1''"
proof -
  have a: "app_overlay_subtitles_style (Some Map.empty) =
     \<lparr> font_name = ''Arial'', font_size = ''20'', primary_color = ''00FFFFFF'',
       back_color = ''FF000000'', bold = 0, italic = 0, border_style = ''1'',
       outline_val = ''2'', shadow_val = ''2'', alignment_code = 2,
       margin_l = ''10'', margin_r = ''10'', margin_v = ''20'' \<rparr>"
    by (simp add: app_overlay_subtitles_style_def dict_get_def py_lower_def lower_char_def
        FONT_MAP_def BG_COLOR_MAP_def app_color_map_def app_position_map_def outline_table_def
        shadow_table_def)
  have h: "convert_srt_to_ass_style (Some Map.empty) =
     \<lparr> font_name = ''Arial'', font_size = ''20'', primary_color = ''00FFFFFF'',
       back_color = ''FF000000'', bold = 0, italic = 0, border_style = ''1'',
       outline_val = ''2'', shadow_val = ''1'', alignment_code = 2,
       margin_l = ''10'', margin_r = ''10'', margin_v = ''20'' \<rparr>"
    by (simp add: convert_srt_to_ass_style_def dict_get_def get_ass_alignment_and_margins_def
        FONT_MAP_def BG_COLOR_MAP_def COLOR_MAP_def position_map_def)
  have an: "app_overlay_subtitles_style None = app_overlay_subtitles_style (Some Map.empty)"
    by (simp add: app_overlay_subtitles_style_def)
  have hn: "convert_srt_to_ass_style None = convert_srt_to_ass_style (Some Map.empty)"
    by (simp add: convert_srt_to_ass_style_def dict_get_def default_caption_settings_def)
  have la: "style_line (app_overlay_subtitles_style (Some Map.empty)) =
       ''Style: Default,Arial,20,&H00FFFFFF,&H00FFFFFF,&H00000000,&HFF000000,0,0,0,0,100,100,0,0,1,2,2,2,10,10,20,1''"
    unfolding a by (simp add: style_line_def str_int_small)
  have lh: "style_line (convert_srt_to_ass_style (Some Map.empty)) =
       ''Style: Default,Arial,20,&H00FFFFFF,&H00FFFFFF,&H00000000,&HFF000000,0,0,0,0,100,100,0,0,1,2,1,2,10,10,20,1''"
    unfolding h by (simp add: style_line_def str_int_small)
  show ?thesis by (intro conjI) (rule a h an hn la lh medium_entries)+
qed

text \<open>
  The claim as stated fails on \<^verbatim>\<open>helpers.py\<close>: its shadow for the empty configuration is 1,
  and the \<^verbatim>\<open>medium\<close> entry of the shadow table is 2.
\<close>

theorem default_shadow_counterexample:
  "shadow_val (convert_srt_to_ass_style (Some Map.empty)) = ''1''
   \<and> map_of shadow_table ''medium'' = Some ''2''
   \<and> map_of shadow_table ''medium'' \<noteq> Some (shadow_val (convert_srt_to_ass_style (Some Map.empty)))"
  by (simp add: convert_srt_to_ass_style_def dict_get_def Let_def shadow_table_def)




end
